theory Spec2Isabelle
  imports Complex_Main "HOL-Library.Sublist"
begin

section \<open>Data model\<close>

text \<open>
  A JavaScript \<open>number\<close>: a finite value, \<open>NaN\<close> or one of the two infinities. The
  component only stores and copies coordinates, it never computes with them, so the
  finite values are taken as reals.
\<close>

datatype number = Finite real | NaN | PosInfinity | NegInfinity

fun isFinite :: "number \<Rightarrow> bool" where
  "isFinite (Finite x) = True"
| "isFinite NaN = False"
| "isFinite PosInfinity = False"
| "isFinite NegInfinity = False"

text \<open>A GeoJSON position \<open>[lng, lat]\<close>.\<close>

type_synonym Position = "number \<times> number"

text \<open>
  mapbox-gl's \<open>MapMouseEvent\<close>, reduced to the field the component reads. The library
  declares \<open>lngLat\<close> as always present, so the test \<open>!e.lngLat\<close> of \<open>addPoint\<close>,
  \<open>addLinePoint\<close> and \<open>addPolygonPoint\<close> is never true and has no branch here.
\<close>

record LngLat =
  lng :: number
  lat :: number

record MapMouseEvent =
  lngLat :: LngLat

text \<open>
  The library builds \<open>lngLat\<close> with its \<open>LngLat\<close> constructor, which throws when the
  longitude or the latitude is \<open>NaN\<close> and when the latitude is outside [-90, 90]; it
  accepts every other longitude, the infinite ones included. The fields of the record range
  over all numbers; \<open>valid_LngLat\<close> is the constructor's check, and the clicks the
  component is shown to receive below satisfy it.
\<close>

definition valid_LngLat :: "LngLat \<Rightarrow> bool" where
  "valid_LngLat p \<longleftrightarrow>
     lng p \<noteq> NaN \<and>
     (case lat p of
        Finite y \<Rightarrow> - 90 \<le> y \<and> y \<le> 90
      | _ \<Rightarrow> False)"

definition click_at :: "number \<Rightarrow> number \<Rightarrow> MapMouseEvent" where
  "click_at x y = \<lparr>lngLat = \<lparr>lng = x, lat = y\<rparr>\<rparr>"

text \<open>The GeoJSON geometries the component builds.\<close>

datatype Geometry =
    Point Position
  | LineString "Position list"
  | Polygon "Position list list"

text \<open>
  \<open>CustomFeature\<close> of \<open>MapComponent.tsx\<close>. GeoJSON's \<open>Feature.id\<close> is optional, and
  the handlers test it (\<open>f.id?.toString()\<close>, \<open>!updatedFeature.id\<close>), so the field
  is an option; every id of this program is a string.
\<close>

record Properties =
  name :: string
  description :: string

record Feature =
  feature_id :: "string option"
  geometry :: Geometry
  properties :: Properties

text \<open>The drawing mode \<open>"point" | "line" | "polygon"\<close>; \<open>null\<close> is \<open>None\<close>.\<close>

datatype DrawingMode = point | line | polygon

text \<open>Decimal rendering of a number inside a template string.\<close>

fun string_of_nat :: "nat \<Rightarrow> string" where
  "string_of_nat n =
     (if n < 10 then [char_of (48 + n)]
      else string_of_nat (n div 10) @ [char_of (48 + n mod 10)])"

declare string_of_nat.simps [simp del]

text \<open>
  Modelled from the spec: \<open>uuidv4\<close> is the \<open>uuid\<close> package's generator, which is not
  part of the repository; the spec asks of an id only that it is an opaque string that is
  fresh at creation. \<open>uuidv4 k\<close> stands for the value the \<open>k\<close>-th call returns.
\<close>

definition uuidv4 :: "nat \<Rightarrow> string" where
  "uuidv4 k = ''uuid-'' @ string_of_nat k"

section \<open>The component state of \<open>MapComponent.tsx\<close>\<close>

text \<open>
  The \<open>useState\<close> variables of \<open>MapComponent\<close> that the drawing and feature handlers
  read or write. One value of this record is what one render of the component sees: a
  function created during a render reads these variables from that render, whatever the
  state has become since.
\<close>

record State =
  drawingMode :: "DrawingMode option"
  currentFeature :: "Feature option"
  features :: "Feature list"
  selectedFeature :: "Feature option"
  showProperties :: bool
  linePoints :: "Position list"
  polygonPoints :: "Position list"

text \<open>
  A function bound to the map with \<open>map.current.on("click", f)\<close>: which of the two
  click handlers it is, the render whose variables it reads, and its identity (two
  functions created by different renders are different objects, and
  \<open>off("click", f)\<close> unbinds the object it is given).
\<close>

datatype ListenerKind = handleMapClick_fn | handleDrawingClick_fn

record Listener =
  ident :: nat
  kind :: ListenerKind
  closure :: State

text \<open>
  The mounted component: the current state, the ref \<open>map.current\<close> (\<open>True\<close> when it
  holds a map), the click listeners bound to that map in binding order, the number of
  listener functions created so far, the listener that the pending cleanup of the
  \<open>[drawingMode]\<close> effect will unbind, and the number of calls made to \<open>uuidv4\<close>.
\<close>

record Component =
  state :: State
  map_current :: bool
  listeners :: "Listener list"
  listener_count :: nat
  effect_listener :: "nat option"
  uuid_calls :: nat

subsection \<open>State setters\<close>

text \<open>
  \<open>setFeatures(prev => ...)\<close>, \<open>setLinePoints(prev => ...)\<close> and
  \<open>setPolygonPoints(prev => ...)\<close> are called with an updater, which React applies to
  the current value; the other setters are given the new value.
\<close>

definition setFeatures :: "(Feature list \<Rightarrow> Feature list) \<Rightarrow> Component \<Rightarrow> Component" where
  "setFeatures upd c = c\<lparr>state := (state c)\<lparr>features := upd (features (state c))\<rparr>\<rparr>"

definition setLinePoints :: "(Position list \<Rightarrow> Position list) \<Rightarrow> Component \<Rightarrow> Component" where
  "setLinePoints upd c = c\<lparr>state := (state c)\<lparr>linePoints := upd (linePoints (state c))\<rparr>\<rparr>"

definition setPolygonPoints :: "(Position list \<Rightarrow> Position list) \<Rightarrow> Component \<Rightarrow> Component" where
  "setPolygonPoints upd c =
     c\<lparr>state := (state c)\<lparr>polygonPoints := upd (polygonPoints (state c))\<rparr>\<rparr>"

definition setDrawingMode :: "DrawingMode option \<Rightarrow> Component \<Rightarrow> Component" where
  "setDrawingMode v c = c\<lparr>state := (state c)\<lparr>drawingMode := v\<rparr>\<rparr>"

definition setCurrentFeature :: "Feature option \<Rightarrow> Component \<Rightarrow> Component" where
  "setCurrentFeature v c = c\<lparr>state := (state c)\<lparr>currentFeature := v\<rparr>\<rparr>"

definition setSelectedFeature :: "Feature option \<Rightarrow> Component \<Rightarrow> Component" where
  "setSelectedFeature v c = c\<lparr>state := (state c)\<lparr>selectedFeature := v\<rparr>\<rparr>"

definition setShowProperties :: "bool \<Rightarrow> Component \<Rightarrow> Component" where
  "setShowProperties v c = c\<lparr>state := (state c)\<lparr>showProperties := v\<rparr>\<rparr>"

subsection \<open>Drawing handlers (\<open>MapComponent.tsx\<close>, lines 261-397)\<close>

text \<open>
  Each handler takes the render \<open>r\<close> it was created in. \<open>features.length\<close>,
  \<open>linePoints\<close> and \<open>polygonPoints\<close> are read from \<open>r\<close>; the updaters work on the
  current state; \<open>map.current\<close> is a ref and is read as it is now. The calls that add a
  source and a layer to the map draw the feature and leave the state alone.
\<close>

definition addPoint :: "State \<Rightarrow> MapMouseEvent \<Rightarrow> Component \<Rightarrow> Component" where
  "addPoint r e c =
     (if \<not> map_current c then c
      else
        let featureId = uuidv4 (uuid_calls c);
            feature = \<lparr>feature_id = Some featureId,
                       geometry = Point (lng (lngLat e), lat (lngLat e)),
                       properties = \<lparr>name = ''Point '' @ string_of_nat (length (features r) + 1),
                                     description = ''New point feature''\<rparr>\<rparr>
        in setFeatures (\<lambda>prev. prev @ [feature]) (c\<lparr>uuid_calls := Suc (uuid_calls c)\<rparr>))"

definition addLinePoint :: "State \<Rightarrow> MapMouseEvent \<Rightarrow> Component \<Rightarrow> Component" where
  "addLinePoint r e c =
     (if \<not> map_current c then c
      else
        let coordinates = (lng (lngLat e), lat (lngLat e));
            c1 = setLinePoints (\<lambda>prev. prev @ [coordinates]) c
        in if length (linePoints r) > 0 then
             let featureId = uuidv4 (uuid_calls c1);
                 feature = \<lparr>feature_id = Some featureId,
                            geometry = LineString (linePoints r @ [coordinates]),
                            properties = \<lparr>name = ''Line '' @ string_of_nat (length (features r) + 1),
                                          description = ''New line feature''\<rparr>\<rparr>
             in setFeatures (\<lambda>prev. prev @ [feature]) (c1\<lparr>uuid_calls := Suc (uuid_calls c1)\<rparr>)
           else c1)"

definition addPolygonPoint :: "State \<Rightarrow> MapMouseEvent \<Rightarrow> Component \<Rightarrow> Component" where
  "addPolygonPoint r e c =
     (if \<not> map_current c then c
      else
        let coordinates = (lng (lngLat e), lat (lngLat e));
            c1 = setPolygonPoints (\<lambda>prev. prev @ [coordinates]) c
        in if length (polygonPoints r) > 0 then
             let featureId = uuidv4 (uuid_calls c1);
                 feature = \<lparr>feature_id = Some featureId,
                            geometry = Polygon [polygonPoints r @ [coordinates]],
                            properties = \<lparr>name = ''Polygon '' @ string_of_nat (length (features r) + 1),
                                          description = ''New polygon feature''\<rparr>\<rparr>
             in setFeatures (\<lambda>prev. prev @ [feature]) (c1\<lparr>uuid_calls := Suc (uuid_calls c1)\<rparr>)
           else c1)"

text \<open>
  \<open>handleDrawingClick\<close> (lines 141-157) and \<open>handleMapClick\<close> (lines 107-123) have
  the same body: return when the render's \<open>drawingMode\<close> is \<open>null\<close> or there is no
  map, else dispatch on the mode. Neither looks at the coordinates.
\<close>

definition handleDrawingClick :: "State \<Rightarrow> MapMouseEvent \<Rightarrow> Component \<Rightarrow> Component" where
  "handleDrawingClick r e c =
     (case drawingMode r of
        None \<Rightarrow> c
      | Some m \<Rightarrow>
          if \<not> map_current c then c
          else (case m of
                  point \<Rightarrow> addPoint r e c
                | line \<Rightarrow> addLinePoint r e c
                | polygon \<Rightarrow> addPolygonPoint r e c))"

definition handleMapClick :: "State \<Rightarrow> MapMouseEvent \<Rightarrow> Component \<Rightarrow> Component" where
  "handleMapClick r e c =
     (case drawingMode r of
        None \<Rightarrow> c
      | Some m \<Rightarrow>
          if \<not> map_current c then c
          else (case m of
                  point \<Rightarrow> addPoint r e c
                | line \<Rightarrow> addLinePoint r e c
                | polygon \<Rightarrow> addPolygonPoint r e c))"

subsection \<open>Feature handlers (\<open>MapComponent.tsx\<close>, lines 210-259 and 399-458)\<close>

text \<open>
  \<open>handleToolSelect\<close> (lines 399-402) sets the mode and resets \<open>currentFeature\<close>,
  and nothing else.
\<close>

definition handleToolSelect :: "DrawingMode option \<Rightarrow> Component \<Rightarrow> Component" where
  "handleToolSelect tool c = setCurrentFeature None (setDrawingMode tool c)"

text \<open>
  \<open>clearAll\<close> (lines 210-224): empties the feature list and sets the mode to \<open>null\<close>.
  Nothing in \<open>MapComponent.tsx\<close> calls it and the component does not hand it out, so it
  is not among the things the user can do to the component (\<open>Event\<close> below).
\<close>

definition clearAll :: "Component \<Rightarrow> Component" where
  "clearAll c =
     (if \<not> map_current c then c
      else setDrawingMode None (setFeatures (\<lambda>prev. []) c))"

text \<open>
  \<open>prev.filter((_, i) => i !== index)\<close>: JavaScript's \<open>filter\<close> with the element and
  its index.
\<close>

definition filter_indexed :: "('a \<Rightarrow> int \<Rightarrow> bool) \<Rightarrow> 'a list \<Rightarrow> 'a list" where
  "filter_indexed p xs =
     map fst (filter (\<lambda>(x, i). p x i) (zip xs (map int [0..<length xs])))"

text \<open>
  \<open>removeFeature\<close> (lines 226-237). \<open>features[index]\<close> is \<open>undefined\<close> when the
  index is outside the list, and reading \<open>feature.id\<close> then throws a TypeError before
  any state is set.
\<close>

datatype error = TypeError

definition removeFeature :: "int \<Rightarrow> Component \<Rightarrow> error + Component" where
  "removeFeature index c =
     (if \<not> map_current c then Inr c
      else if index < 0 \<or> int (length (features (state c))) \<le> index then Inl TypeError
      else Inr (setFeatures (\<lambda>prev. filter_indexed (\<lambda>_ i. i \<noteq> index) prev) c))"

text \<open>\<open>handleFeatureSelect\<close> (lines 239-242).\<close>

definition handleFeatureSelect :: "Feature \<Rightarrow> Component \<Rightarrow> Component" where
  "handleFeatureSelect feature c = setShowProperties True (setSelectedFeature (Some feature) c)"

text \<open>
  \<open>handleFeatureDelete\<close> (lines 244-259). The test
  \<open>selectedFeature?.id?.toString() === id\<close> fails when nothing is selected. The
  function returns nothing (\<open>void\<close>): all it leaves behind is the new state.
\<close>

definition handleFeatureDelete :: "string \<Rightarrow> Component \<Rightarrow> Component" where
  "handleFeatureDelete i c =
     (if \<not> map_current c then c
      else
        let c1 = setFeatures (\<lambda>prev. filter (\<lambda>f. feature_id f \<noteq> Some i) prev) c
        in if (case selectedFeature (state c) of
                 None \<Rightarrow> False
               | Some s \<Rightarrow> feature_id s = Some i)
           then setShowProperties False (setSelectedFeature None c1)
           else c1)"

text \<open>
  \<open>handleFeatureUpdate\<close> (lines 428-458). \<open>!updatedFeature.id\<close> holds for a missing
  id and for the empty string. The lookup of a map source named \<open>"features"\<close> only
  redraws. Like \<open>handleFeatureDelete\<close> the function returns nothing.
\<close>

definition handleFeatureUpdate :: "Feature \<Rightarrow> Component \<Rightarrow> Component" where
  "handleFeatureUpdate updatedFeature c =
     (if \<not> map_current c \<or> feature_id updatedFeature = None
         \<or> feature_id updatedFeature = Some [] then c
      else
        setShowProperties False
          (setSelectedFeature None
            (setFeatures
              (\<lambda>prev. map (\<lambda>f. if feature_id f = feature_id updatedFeature
                                 then f\<lparr>properties := properties updatedFeature\<rparr>
                                 else f) prev) c)))"

text \<open>The \<open>onClose\<close> callback handed to \<open>FeatureProperties\<close> (lines 516-519).\<close>

definition onClose :: "Component \<Rightarrow> Component" where
  "onClose c = setSelectedFeature None (setShowProperties False c)"

text \<open>
  \<open>handleSave\<close> of \<open>FeatureProperties\<close> (\<open>unnamed/part_001\<close>, lines 23-37), with
  the form's \<open>name\<close> and \<open>description\<close>; its \<open>feature\<close> prop is the component's
  \<open>selectedFeature\<close>.
\<close>

definition handleSave :: "string \<Rightarrow> string \<Rightarrow> Component \<Rightarrow> Component" where
  "handleSave n d c =
     (case selectedFeature (state c) of
        None \<Rightarrow> c
      | Some feature \<Rightarrow>
          let updatedFeature = feature\<lparr>properties := (properties feature)\<lparr>name := n, description := d\<rparr>\<rparr>
          in onClose (handleFeatureUpdate updatedFeature c))"

subsection \<open>Effects and click listeners (\<open>MapComponent.tsx\<close>, lines 63-169)\<close>

text \<open>
  \<open>on("click", f)\<close> appends a fresh function object to the map's listeners;
  \<open>off("click", f)\<close> removes the first listener that is the object \<open>f\<close>.
\<close>

definition on_click :: "ListenerKind \<Rightarrow> State \<Rightarrow> Component \<Rightarrow> Component" where
  "on_click k r c =
     c\<lparr>listeners := listeners c @ [\<lparr>ident = listener_count c, kind = k, closure = r\<rparr>],
       listener_count := Suc (listener_count c)\<rparr>"

fun remove_listener :: "nat \<Rightarrow> Listener list \<Rightarrow> Listener list" where
  "remove_listener i [] = []"
| "remove_listener i (l # ls) = (if ident l = i then ls else l # remove_listener i ls)"

definition off_click :: "nat \<Rightarrow> Component \<Rightarrow> Component" where
  "off_click i c = c\<lparr>listeners := remove_listener i (listeners c)\<rparr>"

text \<open>
  The first effect (dependencies \<open>[]\<close>, lines 63-135) runs once after the first render:
  it creates the map and binds \<open>handleMapClick\<close>, a function of that first render. Its
  cleanup runs at unmount only.
\<close>

definition map_effect :: "Component \<Rightarrow> Component" where
  "map_effect c =
     (if map_current c then c
      else on_click handleMapClick_fn (state c) (c\<lparr>map_current := True\<rparr>))"

text \<open>
  The second effect (dependencies \<open>[drawingMode]\<close>, lines 138-169) creates
  \<open>handleDrawingClick\<close> in the current render, calls \<open>off\<close> with that new function
  (which is not bound yet), binds it, and returns the cleanup that unbinds it.
\<close>

definition drawing_effect :: "Component \<Rightarrow> Component" where
  "drawing_effect c =
     (if \<not> map_current c then c\<lparr>effect_listener := None\<rparr>
      else
        let i = listener_count c
        in (on_click handleDrawingClick_fn (state c) (off_click i c))\<lparr>effect_listener := Some i\<rparr>)"

definition drawing_cleanup :: "Component \<Rightarrow> Component" where
  "drawing_cleanup c =
     (case effect_listener c of
        None \<Rightarrow> c
      | Some i \<Rightarrow> if map_current c then off_click i c else c)"

text \<open>
  After a handler has run React renders the component again; an effect runs again, after
  the cleanup of its previous run, only when one of its dependencies has changed. Of the
  two effects only the second has a dependency.
\<close>

definition rerender :: "State \<Rightarrow> Component \<Rightarrow> Component" where
  "rerender before c =
     (if drawingMode (state c) = drawingMode before then c
      else drawing_effect (drawing_cleanup c))"

text \<open>The component before its first render is committed, and after.\<close>

definition initial :: State where
  "initial = \<lparr>drawingMode = None, currentFeature = None, features = [],
              selectedFeature = None, showProperties = False,
              linePoints = [], polygonPoints = []\<rparr>"

definition unmounted :: Component where
  "unmounted = \<lparr>state = initial, map_current = False, listeners = [],
                listener_count = 0, effect_listener = None, uuid_calls = 0\<rparr>"

definition mount :: Component where
  "mount = drawing_effect (map_effect unmounted)"

text \<open>A click on the map calls every bound listener, in binding order.\<close>

definition call_listener :: "MapMouseEvent \<Rightarrow> Component \<Rightarrow> Listener \<Rightarrow> Component" where
  "call_listener e c l =
     (case kind l of
        handleMapClick_fn \<Rightarrow> handleMapClick (closure l) e c
      | handleDrawingClick_fn \<Rightarrow> handleDrawingClick (closure l) e c)"

definition fire_click :: "MapMouseEvent \<Rightarrow> Component \<Rightarrow> Component" where
  "fire_click e c = foldl (call_listener e) c (listeners c)"

text \<open>
  What the user can do to the mounted component: pick a tool in the toolbar, click the
  map, select or delete a feature in the list, and save or close the properties panel.
\<close>

datatype Event =
    ToolSelect "DrawingMode option"
  | MapClick MapMouseEvent
  | FeatureSelect Feature
  | FeatureDelete string
  | Save string string
  | Close

fun handler :: "Event \<Rightarrow> Component \<Rightarrow> Component" where
  "handler (ToolSelect tool) c = handleToolSelect tool c"
| "handler (MapClick e) c = fire_click e c"
| "handler (FeatureSelect f) c = handleFeatureSelect f c"
| "handler (FeatureDelete i) c = handleFeatureDelete i c"
| "handler (Save n d) c = handleSave n d c"
| "handler Close c = onClose c"

definition step :: "Component \<Rightarrow> Event \<Rightarrow> Component" where
  "step c ev = rerender (state c) (handler ev c)"

definition run :: "Event list \<Rightarrow> Component" where
  "run evs = foldl step mount evs"

inductive reachable :: "Component \<Rightarrow> bool" where
  reachable_mount: "reachable mount"
| reachable_step: "reachable c \<Longrightarrow> reachable (step c ev)"

section \<open>The page (\<open>src/app/page.tsx\<close>)\<close>

text \<open>
  \<open>Home\<close> keeps a feature list of its own and the selected id for \<open>MapSidebar\<close>;
  it has no properties panel.
\<close>

record Home =
  home_features :: "Feature list"
  home_selectedFeature :: "string option"

definition handleFeatureSelect_home :: "string \<Rightarrow> Home \<Rightarrow> Home" where
  "handleFeatureSelect_home i h = h\<lparr>home_selectedFeature := Some i\<rparr>"

definition handleFeatureDelete_home :: "string \<Rightarrow> Home \<Rightarrow> Home" where
  "handleFeatureDelete_home i h =
     h\<lparr>home_features := filter (\<lambda>f. feature_id f \<noteq> Some i) (home_features h),
       home_selectedFeature :=
         (if home_selectedFeature h = Some i then None else home_selectedFeature h)\<rparr>"

definition handleFeatureAdd_home :: "Feature \<Rightarrow> Home \<Rightarrow> Home" where
  "handleFeatureAdd_home feature h = h\<lparr>home_features := home_features h @ [feature]\<rparr>"

section \<open>The earlier version of the component (\<open>unnamed/part_002\<close>)\<close>

text \<open>
  \<open>part_002\<close> keeps \<open>MapFeature\<close> values \<open>{type, coordinates, id}\<close>. Every one it
  builds has a single position when its type is \<open>"point"\<close> and a list of positions
  otherwise, so the type tag is the constructor. The copy of the component that follows
  \<open>FeatureList\<close> in \<open>FeatureList.tsx\<close> has the same \<open>addLinePoint\<close> and
  \<open>addPolygonPoint\<close> (lines 323-469) up to the calls that draw.
\<close>

datatype MapFeature =
    PointFeature Position string
  | LineFeature "Position list" string
  | PolygonFeature "Position list" string

fun mf_id :: "MapFeature \<Rightarrow> string" where
  "mf_id (PointFeature p i) = i"
| "mf_id (LineFeature ps i) = i"
| "mf_id (PolygonFeature ps i) = i"

record Draft =
  d_drawingMode :: "DrawingMode option"
  d_currentFeature :: "Feature option"
  d_features :: "MapFeature list"
  d_map_current :: bool
  d_uuid_calls :: nat

text \<open>\<open>addPoint\<close> (\<open>part_002\<close>, lines 226-258).\<close>

definition addPoint_draft :: "Position \<Rightarrow> Draft \<Rightarrow> Draft" where
  "addPoint_draft coordinates c =
     (if \<not> d_map_current c then c
      else c\<lparr>d_features := d_features c @ [PointFeature coordinates (uuidv4 (d_uuid_calls c))],
             d_uuid_calls := Suc (d_uuid_calls c)\<rparr>)"

text \<open>
  The updater of \<open>addLinePoint\<close> (\<open>part_002\<close>, lines 263-342). \<open>now\<close> is what
  \<open>Date.now()\<close> returns when the updater runs. \<open>prev[prev.length - 1]\<close> is
  \<open>undefined\<close> for an empty list, and \<open>lastFeature?.type === "line"\<close> is then false;
  \<open>prev.slice(0, -1)\<close> is the list without its last element.
\<close>

definition line_updater :: "nat \<Rightarrow> Position \<Rightarrow> MapFeature list \<Rightarrow> MapFeature list" where
  "line_updater now coordinates prev =
     (case (if prev = [] then None else Some (last prev)) of
        Some (LineFeature lastCoordinates lastId) \<Rightarrow>
          let lineCoordinates = lastCoordinates @ [coordinates];
              featureId = ''line-'' @ string_of_nat now
          in butlast prev @ [LineFeature lineCoordinates featureId]
      | _ \<Rightarrow>
          let featureId = ''line-'' @ string_of_nat now
          in prev @ [LineFeature [coordinates] featureId])"

definition addLinePoint_draft :: "nat \<Rightarrow> Position \<Rightarrow> Draft \<Rightarrow> Draft" where
  "addLinePoint_draft now coordinates c =
     (if \<not> d_map_current c then c
      else c\<lparr>d_features := line_updater now coordinates (d_features c)\<rparr>)"

text \<open>\<open>addPolygonPoint\<close> (\<open>part_002\<close>, lines 345-430), the same with polygons.\<close>

definition polygon_updater :: "nat \<Rightarrow> Position \<Rightarrow> MapFeature list \<Rightarrow> MapFeature list" where
  "polygon_updater now coordinates prev =
     (case (if prev = [] then None else Some (last prev)) of
        Some (PolygonFeature lastCoordinates lastId) \<Rightarrow>
          let polygonCoordinates = lastCoordinates @ [coordinates];
              featureId = ''polygon-'' @ string_of_nat now
          in butlast prev @ [PolygonFeature polygonCoordinates featureId]
      | _ \<Rightarrow>
          let featureId = ''polygon-'' @ string_of_nat now
          in prev @ [PolygonFeature [coordinates] featureId])"

definition addPolygonPoint_draft :: "nat \<Rightarrow> Position \<Rightarrow> Draft \<Rightarrow> Draft" where
  "addPolygonPoint_draft now coordinates c =
     (if \<not> d_map_current c then c
      else c\<lparr>d_features := polygon_updater now coordinates (d_features c)\<rparr>)"

text \<open>
  \<open>handleToolSelect\<close> (lines 432-435) and \<open>clearAll\<close> (lines 199-212). The copy of
  the component in \<open>FeatureList.tsx\<close> has the same two functions (lines 264-277 and
  471-474), and it is there that \<open>clearAll\<close> can be called: its "Clear All" button
  (line 583) is the only caller of a \<open>clearAll\<close> in the repository.
\<close>

definition handleToolSelect_draft :: "DrawingMode option \<Rightarrow> Draft \<Rightarrow> Draft" where
  "handleToolSelect_draft tool c = c\<lparr>d_drawingMode := tool, d_currentFeature := None\<rparr>"


text \<open>
  \<open>handleDrawingClick\<close> (lines 130-146), for the \<open>drawingMode\<close> of its render.
\<close>

definition handleDrawingClick_draft ::
    "DrawingMode option \<Rightarrow> nat \<Rightarrow> MapMouseEvent \<Rightarrow> Draft \<Rightarrow> Draft" where
  "handleDrawingClick_draft mode now e c =
     (case mode of
        None \<Rightarrow> c
      | Some m \<Rightarrow>
          if \<not> d_map_current c then c
          else
            let coordinates = (lng (lngLat e), lat (lngLat e))
            in (case m of
                  point \<Rightarrow> addPoint_draft coordinates c
                | line \<Rightarrow> addLinePoint_draft now coordinates c
                | polygon \<Rightarrow> addPolygonPoint_draft now coordinates c))"

text \<open>
  \<open>part_002\<close> binds its click listeners the way \<open>MapComponent.tsx\<close> does (lines
  95-158). Its handlers read nothing but \<open>drawingMode\<close> from their render, and the
  \<open>[drawingMode]\<close> effect binds a new \<open>handleDrawingClick\<close> whenever the mode changes,
  so a click is handled for the current mode.
\<close>

datatype DraftEvent =
    DraftToolSelect "DrawingMode option"
  | DraftMapClick nat MapMouseEvent

fun step_draft :: "Draft \<Rightarrow> DraftEvent \<Rightarrow> Draft" where
  "step_draft c (DraftToolSelect tool) = handleToolSelect_draft tool c"
| "step_draft c (DraftMapClick now e) = handleDrawingClick_draft (d_drawingMode c) now e c"

definition mount_draft :: Draft where
  "mount_draft = \<lparr>d_drawingMode = None, d_currentFeature = None, d_features = [],
                  d_map_current = True, d_uuid_calls = 0\<rparr>"

definition run_draft :: "DraftEvent list \<Rightarrow> Draft" where
  "run_draft evs = foldl step_draft mount_draft evs"

section \<open>Invariants of the listener binding\<close>

text \<open>
  Two components have the same binding when they agree on the map, on its listeners and
  on the bookkeeping of the \<open>[drawingMode]\<close> effect.
\<close>

definition same_binding :: "Component \<Rightarrow> Component \<Rightarrow> bool" where
  "same_binding c c' \<longleftrightarrow>
     map_current c' = map_current c \<and> listeners c' = listeners c \<and>
     listener_count c' = listener_count c \<and> effect_listener c' = effect_listener c"

text \<open>
  The binding every state of the mounted component has: the map exists, and its click
  listeners are the \<open>handleMapClick\<close> of the first render followed by one
  \<open>handleDrawingClick\<close>, created in a render with the current drawing mode, which is
  the one the pending cleanup will unbind.
\<close>

definition bound_ok :: "Component \<Rightarrow> bool" where
  "bound_ok c \<longleftrightarrow>
     map_current c \<and>
     (case listeners c of
        [l0, l1] \<Rightarrow>
          l0 = \<lparr>ident = 0, kind = handleMapClick_fn, closure = initial\<rparr> \<and>
          kind l1 = handleDrawingClick_fn \<and>
          0 < ident l1 \<and> ident l1 < listener_count c \<and>
          effect_listener c = Some (ident l1) \<and>
          drawingMode (closure l1) = drawingMode (state c)
      | _ \<Rightarrow> False)"

section \<open>Auxiliary facts\<close>

lemmas setters = setFeatures_def setLinePoints_def setPolygonPoints_def setDrawingMode_def
  setCurrentFeature_def setSelectedFeature_def setShowProperties_def

lemmas handler_defs = handleDrawingClick_def handleMapClick_def addPoint_def addLinePoint_def
  addPolygonPoint_def handleToolSelect_def clearAll_def handleFeatureSelect_def
  handleFeatureDelete_def handleFeatureUpdate_def handleSave_def onClose_def

lemmas effect_defs = map_effect_def drawing_effect_def drawing_cleanup_def rerender_def
  on_click_def off_click_def mount_def unmounted_def initial_def

subsection \<open>Lists\<close>

lemma filter_indexed_offset:
  "map fst (filter (\<lambda>(x, i). i \<noteq> int m) (zip xs (map int [n..<n + length xs]))) =
     (if n \<le> m \<and> m < n + length xs then take (m - n) xs @ drop (Suc (m - n)) xs else xs)"
proof (induction xs arbitrary: n)
  case Nil
  then show ?case by simp
next
  case (Cons x xs)
  have "[n..<n + Suc (length xs)] = n # [Suc n..<n + Suc (length xs)]"
    by (rule upt_conv_Cons) simp
  then have upt: "[n..<n + length (x # xs)] = n # [Suc n..<Suc n + length xs]"
    by simp
  show ?case
  proof (cases "n = m")
    case True
    with Cons.IH [of "Suc n"] show ?thesis
      unfolding upt by (simp del: upt_Suc)
  next
    case False
    have d: "Suc n \<le> m \<Longrightarrow> m - n = Suc (m - Suc n)"
      by simp
    from False Cons.IH [of "Suc n"] show ?thesis
      unfolding upt by (auto simp: d simp del: upt_Suc)
  qed
qed

lemma filter_indexed_remove:
  assumes "0 \<le> k" and "nat k < length xs"
  shows "filter_indexed (\<lambda>_ i. i \<noteq> k) xs = take (nat k) xs @ drop (Suc (nat k)) xs"
proof -
  have "int (nat k) = k" using assms by simp
  then have "filter_indexed (\<lambda>_ i. i \<noteq> k) xs =
      map fst (filter (\<lambda>(x, i). i \<noteq> int (nat k)) (zip xs (map int [0..<0 + length xs])))"
    by (simp add: filter_indexed_def)
  also have "\<dots> = take (nat k) xs @ drop (Suc (nat k)) xs"
    using assms by (simp only: filter_indexed_offset) simp
  finally show ?thesis .
qed

lemma filter_unique_id:
  assumes "distinct (map feature_id fs)" and "k < length fs" and "feature_id (fs ! k) = Some i"
  shows "filter (\<lambda>f. feature_id f \<noteq> Some i) fs = take k fs @ drop (Suc k) fs"
  using assms
proof (induction fs arbitrary: k)
  case Nil
  then show ?case by simp
next
  case (Cons f fs)
  show ?case
  proof (cases k)
    case 0
    with Cons.prems have "feature_id f = Some i" and "Some i \<notin> feature_id ` set fs" by auto
    then have "filter (\<lambda>f. feature_id f \<noteq> Some i) fs = fs"
      unfolding filter_id_conv by (metis imageI)
    with 0 \<open>feature_id f = Some i\<close> show ?thesis by simp
  next
    case (Suc j)
    with Cons.prems have "feature_id f \<noteq> Some i"
      by (metis distinct.simps(2) list.simps(9) nth_Cons_Suc nth_mem image_eqI length_Cons
          Suc_less_eq list.set_map)
    with Suc Cons show ?thesis by simp
  qed
qed

lemma properties_overwrite:
  "(p :: Properties)\<lparr>name := n, description := d\<rparr> = \<lparr>name = n, description = d\<rparr>"
  by (cases p) simp

subsection \<open>No handler touches the listeners\<close>

lemma same_binding_refl: "same_binding c c"
  by (simp add: same_binding_def)

lemma same_binding_trans: "same_binding a b \<Longrightarrow> same_binding b c \<Longrightarrow> same_binding a c"
  by (simp add: same_binding_def)

lemma call_listener_binding: "same_binding c (call_listener e c l)"
  by (simp add: same_binding_def call_listener_def handler_defs setters Let_def
           split: ListenerKind.splits option.splits DrawingMode.splits)

lemma foldl_call_listener_binding: "same_binding c (foldl (call_listener e) c ls)"
proof (induction ls arbitrary: c)
  case Nil
  show ?case by (simp add: same_binding_refl)
next
  case (Cons l ls)
  from call_listener_binding [of c e l] Cons [of "call_listener e c l"]
  show ?case by (simp add: same_binding_trans)
qed

lemma handler_binding: "same_binding c (handler ev c)"
proof (cases ev)
  case (MapClick e)
  then show ?thesis by (simp add: fire_click_def foldl_call_listener_binding)
qed (simp_all add: same_binding_def handler_defs setters Let_def split: option.splits)

lemma state_rerender: "state (rerender before c) = state c"
  by (simp add: rerender_def drawing_effect_def drawing_cleanup_def on_click_def off_click_def
        Let_def split: option.splits)

subsection \<open>The binding of every reachable state\<close>

lemma bound_ok_iff:
  "bound_ok c \<longleftrightarrow>
     map_current c \<and>
     (\<exists>i r. listeners c = [\<lparr>ident = 0, kind = handleMapClick_fn, closure = initial\<rparr>,
                           \<lparr>ident = i, kind = handleDrawingClick_fn, closure = r\<rparr>]
          \<and> 0 < i \<and> i < listener_count c \<and> effect_listener c = Some i
          \<and> drawingMode r = drawingMode (state c))"
proof
  assume ok: "bound_ok c"
  then obtain l1 where
    l: "listeners c = [\<lparr>ident = 0, kind = handleMapClick_fn, closure = initial\<rparr>, l1]"
    and p: "kind l1 = handleDrawingClick_fn" "0 < ident l1" "ident l1 < listener_count c"
      "effect_listener c = Some (ident l1)" "drawingMode (closure l1) = drawingMode (state c)"
    by (auto simp: bound_ok_def split: list.splits)
  from p(1) have "l1 = \<lparr>ident = ident l1, kind = handleDrawingClick_fn, closure = closure l1\<rparr>"
    by (cases l1) simp
  with ok l p show "map_current c \<and>
     (\<exists>i r. listeners c = [\<lparr>ident = 0, kind = handleMapClick_fn, closure = initial\<rparr>,
                           \<lparr>ident = i, kind = handleDrawingClick_fn, closure = r\<rparr>]
          \<and> 0 < i \<and> i < listener_count c \<and> effect_listener c = Some i
          \<and> drawingMode r = drawingMode (state c))"
    unfolding bound_ok_def by metis
next
  assume "map_current c \<and>
     (\<exists>i r. listeners c = [\<lparr>ident = 0, kind = handleMapClick_fn, closure = initial\<rparr>,
                           \<lparr>ident = i, kind = handleDrawingClick_fn, closure = r\<rparr>]
          \<and> 0 < i \<and> i < listener_count c \<and> effect_listener c = Some i
          \<and> drawingMode r = drawingMode (state c))"
  then show "bound_ok c"
    by (auto simp: bound_ok_def)
qed

lemma bound_ok_mount: "bound_ok mount"
  by (simp add: bound_ok_iff effect_defs)

lemma bound_ok_step:
  assumes "bound_ok c"
  shows "bound_ok (step c ev)"
proof -
  let ?h = "handler ev c"
  from handler_binding [of c ev]
  have same: "map_current ?h = map_current c" "listeners ?h = listeners c"
    "listener_count ?h = listener_count c" "effect_listener ?h = effect_listener c"
    by (simp_all add: same_binding_def)
  from assms obtain i r where
    b: "map_current c"
       "listeners c = [\<lparr>ident = 0, kind = handleMapClick_fn, closure = initial\<rparr>,
                       \<lparr>ident = i, kind = handleDrawingClick_fn, closure = r\<rparr>]"
       "0 < i" "i < listener_count c" "effect_listener c = Some i"
       "drawingMode r = drawingMode (state c)"
    by (auto simp: bound_ok_iff)
  show ?thesis
  proof (cases "drawingMode (state ?h) = drawingMode (state c)")
    case True
    with b same show ?thesis
      by (auto simp: step_def rerender_def bound_ok_iff)
  next
    case False
    with b same show ?thesis
      by (simp add: step_def rerender_def bound_ok_iff drawing_effect_def drawing_cleanup_def
            on_click_def off_click_def Let_def)
  qed
qed

lemma reachable_bound_ok: "reachable c \<Longrightarrow> bound_ok c"
  by (induction rule: reachable.induct) (simp_all add: bound_ok_mount bound_ok_step)

lemma reachable_run: "reachable (run evs)"
proof -
  have "reachable c \<Longrightarrow> reachable (foldl step c evs)" for c
    by (induction evs arbitrary: c) (simp_all add: reachable_step)
  then show ?thesis by (simp add: run_def reachable_mount)
qed

text \<open>
  Whatever the user has done, the map has exactly these two click listeners: the
  \<open>[drawingMode]\<close> effect replaces its own listener and never unbinds
  \<open>handleMapClick\<close>.
\<close>

lemma reachable_two_listeners:
  "reachable c \<Longrightarrow> map kind (listeners c) = [handleMapClick_fn, handleDrawingClick_fn]"
  by (drule reachable_bound_ok) (auto simp: bound_ok_iff)

text \<open>
  \<open>handleMapClick\<close> was created in the first render, whose \<open>drawingMode\<close> is
  \<open>null\<close>: it returns at once, for ever.
\<close>

lemma handleMapClick_initial: "handleMapClick initial e c = c"
  by (simp add: handleMapClick_def initial_def)

text \<open>
  So a click on the map amounts to one call of \<open>handleDrawingClick\<close>, from a render
  with the current drawing mode.
\<close>

lemma reachable_click:
  assumes "reachable c"
  shows "\<exists>r. drawingMode r = drawingMode (state c) \<and>
             step c (MapClick e) = handleDrawingClick r e c"
proof -
  from reachable_bound_ok [OF assms] obtain i r where
    b: "listeners c = [\<lparr>ident = 0, kind = handleMapClick_fn, closure = initial\<rparr>,
                       \<lparr>ident = i, kind = handleDrawingClick_fn, closure = r\<rparr>]"
       "drawingMode r = drawingMode (state c)"
    by (auto simp: bound_ok_iff)
  have fire: "fire_click e c = handleDrawingClick r e c"
    by (simp add: fire_click_def b call_listener_def handleMapClick_initial)
  have "drawingMode (state (handleDrawingClick r e c)) = drawingMode (state c)"
    by (simp add: handler_defs setters Let_def split: option.splits DrawingMode.splits)
  with fire have "step c (MapClick e) = handleDrawingClick r e c"
    by (simp add: step_def rerender_def)
  with b show ?thesis by blast
qed

text \<open>
  The number of features a click creates is the one the current tool prescribes: none
  without a tool, one for a point, at most one for a line or a polygon.
\<close>

lemma reachable_click_count:
  assumes "reachable c"
  shows "(drawingMode (state c) = None \<longrightarrow>
            features (state (step c (MapClick e))) = features (state c))
       \<and> (drawingMode (state c) = Some point \<longrightarrow>
            length (features (state (step c (MapClick e)))) = Suc (length (features (state c))))
       \<and> length (features (state (step c (MapClick e)))) \<le> Suc (length (features (state c)))"
proof -
  from reachable_click [OF assms, of e] obtain r where
    r: "drawingMode r = drawingMode (state c)" "step c (MapClick e) = handleDrawingClick r e c"
    by blast
  from reachable_bound_ok [OF assms] have "map_current c" by (simp add: bound_ok_iff)
  then show ?thesis
    unfolding r(2) using r(1)
    by (auto simp: handler_defs setters Let_def split: option.splits DrawingMode.splits)
qed

subsection \<open>What a tool change and \<open>clearAll\<close> leave alone\<close>

lemma handleToolSelect_keeps_vertices:
  "linePoints (state (step c (ToolSelect tool))) = linePoints (state c)
 \<and> polygonPoints (state (step c (ToolSelect tool))) = polygonPoints (state c)
 \<and> features (state (step c (ToolSelect tool))) = features (state c)"
  by (simp add: step_def state_rerender handleToolSelect_def setters)

lemma clearAll_keeps_vertices:
  "linePoints (state (clearAll c)) = linePoints (state c)
 \<and> polygonPoints (state (clearAll c)) = polygonPoints (state c)"
  by (simp add: clearAll_def setters)

text \<open>
  What one call of \<open>handleDrawingClick\<close> does for the Line and the Polygon tool, for
  the render \<open>r\<close> the handler was created in: the clicked point is appended to the
  current \<open>linePoints\<close>; a feature is appended only when the \<open>linePoints\<close> of \<open>r\<close>
  is not empty, and then it is a new one made from the \<open>linePoints\<close> of \<open>r\<close>.
\<close>

lemma handleDrawingClick_line_polygon:
  assumes "map_current c"
  shows "(drawingMode r = Some line \<longrightarrow>
            linePoints (state (handleDrawingClick r e c)) =
              linePoints (state c) @ [(lng (lngLat e), lat (lngLat e))]
          \<and> (linePoints r = [] \<longrightarrow>
               features (state (handleDrawingClick r e c)) = features (state c))
          \<and> (linePoints r \<noteq> [] \<longrightarrow>
               (\<exists>f. features (state (handleDrawingClick r e c)) = features (state c) @ [f]
                    \<and> geometry f = LineString (linePoints r @ [(lng (lngLat e), lat (lngLat e))])
                    \<and> feature_id f = Some (uuidv4 (uuid_calls c)))
               \<and> uuid_calls (handleDrawingClick r e c) = Suc (uuid_calls c)))
       \<and> (drawingMode r = Some polygon \<longrightarrow>
            polygonPoints (state (handleDrawingClick r e c)) =
              polygonPoints (state c) @ [(lng (lngLat e), lat (lngLat e))]
          \<and> (polygonPoints r = [] \<longrightarrow>
               features (state (handleDrawingClick r e c)) = features (state c))
          \<and> (polygonPoints r \<noteq> [] \<longrightarrow>
               (\<exists>f. features (state (handleDrawingClick r e c)) = features (state c) @ [f]
                    \<and> geometry f = Polygon [polygonPoints r @ [(lng (lngLat e), lat (lngLat e))]]
                    \<and> feature_id f = Some (uuidv4 (uuid_calls c)))
               \<and> uuid_calls (handleDrawingClick r e c) = Suc (uuid_calls c)))"
  using assms by (simp add: handler_defs setters Let_def)


text \<open>
  In \<open>part_002\<close> a line click replaces a trailing line feature by one with the new
  vertex and a newly made id; the old id is dropped.
\<close>

lemma line_updater_extends_last:
  assumes "prev \<noteq> []" and "last prev = LineFeature ps old"
  shows "line_updater now p prev =
           butlast prev @ [LineFeature (ps @ [p]) (''line-'' @ string_of_nat now)]"
  using assms by (simp add: line_updater_def)

subsection \<open>A line session in \<open>part_002\<close>\<close>

text \<open>
  In \<open>part_002\<close> the clicks of one Line session, started on a list that does not end
  with a line, add exactly one line feature; it holds the clicked positions in click
  order, and its id is the one made at the last click.
\<close>

lemma line_updater_snoc:
  "line_updater now p (fs @ [LineFeature ps i]) =
     fs @ [LineFeature (ps @ [p]) (''line-'' @ string_of_nat now)]"
  by (simp add: line_updater_def)

lemma line_updater_start:
  assumes "prev = [] \<or> (\<forall>ps i. last prev \<noteq> LineFeature ps i)"
  shows "line_updater now p prev = prev @ [LineFeature [p] (''line-'' @ string_of_nat now)]"
  using assms by (auto simp: line_updater_def split: MapFeature.splits)

lemma line_session_continue:
  "foldl (\<lambda>fs (now, p). line_updater now p fs) (fs @ [LineFeature ps i]) clicks =
     fs @ [LineFeature (ps @ map snd clicks)
             (if clicks = [] then i else ''line-'' @ string_of_nat (fst (last clicks)))]"
proof (induction clicks arbitrary: ps i)
  case Nil
  show ?case by simp
next
  case (Cons c clicks)
  obtain now p where c: "c = (now, p)" by (cases c)
  show ?case
    unfolding c by (simp add: line_updater_snoc Cons.IH)
qed

lemma draft_line_session:
  assumes "prev = [] \<or> (\<forall>ps i. last prev \<noteq> LineFeature ps i)"
  shows "foldl (\<lambda>fs (now, p). line_updater now p fs) prev ((now, p) # clicks) =
     prev @ [LineFeature (p # map snd clicks)
               (''line-'' @ string_of_nat (fst (last ((now, p) # clicks))))]"
  using line_updater_start [OF assms, of now p]
    line_session_continue [of prev "[p]" "''line-'' @ string_of_nat now" clicks]
  by simp

section \<open>The claims\<close>

subsection \<open>C1: line and polygon accumulation\<close>

text \<open>
  Claim C1 asks that the clicks of one Line session leave exactly one LineString in the
  list, created by the first click and extended in place by the others, so that clicks at
  (0,0), (1,1) and (2,2) give one LineString with these three coordinates. In
  \<open>MapComponent.tsx\<close> the three clicks, handled by the listener bound when the Line
  tool was selected, leave the list empty: \<open>addLinePoint\<close> creates a feature only when
  the \<open>linePoints\<close> of its render is not empty, and that render is the one of the tool
  change. The three points are in \<open>linePoints\<close>. When a feature is created, after the
  tool has been left and selected again, every click adds a feature of its own: two
  clicks add two. \<open>addLinePoint\<close> of \<open>part_002\<close> does what the claim says, up to the
  id: the same three clicks leave one line with the three coordinates.
\<close>

theorem C1_three_line_clicks_leave_no_feature:
  "features (state (run [ToolSelect (Some line),
      MapClick (click_at (Finite 0) (Finite 0)), MapClick (click_at (Finite 1) (Finite 1)),
      MapClick (click_at (Finite 2) (Finite 2))])) = []
 \<and> linePoints (state (run [ToolSelect (Some line),
      MapClick (click_at (Finite 0) (Finite 0)), MapClick (click_at (Finite 1) (Finite 1)),
      MapClick (click_at (Finite 2) (Finite 2))])) =
     [(Finite 0, Finite 0), (Finite 1, Finite 1), (Finite 2, Finite 2)]
 \<and> length (features (state (run [ToolSelect (Some line),
      MapClick (click_at (Finite 0) (Finite 0)), MapClick (click_at (Finite 1) (Finite 1)),
      ToolSelect (Some point), ToolSelect (Some line),
      MapClick (click_at (Finite 2) (Finite 2)), MapClick (click_at (Finite 3) (Finite 3))]))) =
   length (features (state (run [ToolSelect (Some line),
      MapClick (click_at (Finite 0) (Finite 0)), MapClick (click_at (Finite 1) (Finite 1)),
      ToolSelect (Some point), ToolSelect (Some line)]))) + 2
 \<and> d_features (run_draft [DraftToolSelect (Some line),
      DraftMapClick 1000 (click_at (Finite 0) (Finite 0)),
      DraftMapClick 2000 (click_at (Finite 1) (Finite 1)),
      DraftMapClick 3000 (click_at (Finite 2) (Finite 2))]) =
     [LineFeature [(Finite 0, Finite 0), (Finite 1, Finite 1), (Finite 2, Finite 2)] ''line-3000'']"
  by code_simp

subsection \<open>C2: one click handler\<close>

text \<open>
  Claim C2 asks that exactly one click handler be bound to the map at every moment. The
  component keeps two: the first effect binds \<open>handleMapClick\<close> and nothing unbinds it
  before unmount, and the \<open>[drawingMode]\<close> effect binds \<open>handleDrawingClick\<close> next to
  it; the \<open>off\<close> call under the comment "Remove existing click handlers" is given the
  function that has just been created and removes nothing. This holds after mount, after
  one tool change and after three; the first listener reads the \<open>null\<close> mode of the
  first render, the second the mode selected.
\<close>

theorem C2_two_click_listeners_bound:
  "map kind (listeners mount) = [handleMapClick_fn, handleDrawingClick_fn]
 \<and> map kind (listeners (run [ToolSelect (Some point)])) =
      [handleMapClick_fn, handleDrawingClick_fn]
 \<and> map kind (listeners (run [ToolSelect (Some point), ToolSelect (Some line),
      ToolSelect (Some point)])) = [handleMapClick_fn, handleDrawingClick_fn]
 \<and> map (drawingMode \<circ> closure) (listeners (run [ToolSelect (Some point)])) =
      [None, Some point]"
  by code_simp

subsection \<open>C3: a tool change and the shape in progress\<close>

text \<open>
  Claim C3 asks that a tool change abandon the shape in progress, so that switching away
  from the Line tool and back starts a new shape. \<open>handleToolSelect\<close> resets
  \<open>currentFeature\<close> only. In \<open>MapComponent.tsx\<close> the two vertices clicked before the
  switch are still in \<open>linePoints\<close> after it, and the next click produces a LineString
  that starts with them. In \<open>part_002\<close> the next click extends the line that was in
  progress before the switch.
\<close>

theorem C3_tool_switch_resumes_old_vertices:
  "linePoints (state (run [ToolSelect (Some line),
      MapClick (click_at (Finite 0) (Finite 0)), MapClick (click_at (Finite 1) (Finite 1)),
      ToolSelect (Some point), ToolSelect (Some line)])) =
     [(Finite 0, Finite 0), (Finite 1, Finite 1)]
 \<and> geometry (last (features (state (run [ToolSelect (Some line),
      MapClick (click_at (Finite 0) (Finite 0)), MapClick (click_at (Finite 1) (Finite 1)),
      ToolSelect (Some point), ToolSelect (Some line),
      MapClick (click_at (Finite 2) (Finite 2))])))) =
     LineString [(Finite 0, Finite 0), (Finite 1, Finite 1), (Finite 2, Finite 2)]
 \<and> d_features (run_draft [DraftToolSelect (Some line),
      DraftMapClick 1000 (click_at (Finite 0) (Finite 0)),
      DraftMapClick 2000 (click_at (Finite 1) (Finite 1)),
      DraftToolSelect (Some point), DraftToolSelect (Some line),
      DraftMapClick 3000 (click_at (Finite 2) (Finite 2))]) =
     [LineFeature [(Finite 0, Finite 0), (Finite 1, Finite 1), (Finite 2, Finite 2)] ''line-3000'']"
  by code_simp

subsection \<open>C4: \<open>clearAll\<close> and the shape in progress\<close>



subsection \<open>C5: clicks with non-finite coordinates\<close>

text \<open>
  The claim asks that a click whose longitude or latitude is not finite be dropped. A
  click at an infinite longitude and latitude 0, which \<open>LngLat\<close> accepts, under the
  Point tool adds a Point feature to an empty list.
\<close>

theorem C5_infinite_click_creates_a_point:
  "valid_LngLat (lngLat (click_at PosInfinity (Finite 0)))
 \<and> \<not> isFinite PosInfinity
 \<and> features (state (run [ToolSelect (Some point)])) = []
 \<and> map geometry (features (state (run [ToolSelect (Some point),
      MapClick (click_at PosInfinity (Finite 0))]))) = [Point (PosInfinity, Finite 0)]"
  by code_simp

text \<open>
  Claim C5, as the code has it. \<open>handleDrawingClick\<close> accepts every click, whatever its
  coordinates, finite or not: under the Point tool it appends one Point feature at the
  clicked position, under the Line and Polygon tools it appends the clicked position to
  \<open>linePoints\<close> or \<open>polygonPoints\<close>. Nothing is checked about the position, so
  there is no rejection of repeated vertices or of degenerate shapes either.
\<close>

theorem C5_every_click_is_accepted:
  assumes "map_current c"
  shows "(drawingMode r = Some point \<longrightarrow>
            (\<exists>f. features (state (handleDrawingClick r e c)) = features (state c) @ [f]
                 \<and> geometry f = Point (lng (lngLat e), lat (lngLat e))))
       \<and> (drawingMode r = Some line \<longrightarrow>
            linePoints (state (handleDrawingClick r e c)) =
              linePoints (state c) @ [(lng (lngLat e), lat (lngLat e))])
       \<and> (drawingMode r = Some polygon \<longrightarrow>
            polygonPoints (state (handleDrawingClick r e c)) =
              polygonPoints (state c) @ [(lng (lngLat e), lat (lngLat e))])"
  using assms by (simp add: handler_defs setters Let_def)

text \<open>
  The component after the Point tool has been selected, the render its listener was
  created in, and a click at an infinite longitude.
\<close>

theorem C5_every_click_witness:
  "map_current (run [ToolSelect (Some point)])
 \<and> drawingMode (state (run [ToolSelect (Some point)])) = Some point
 \<and> map closure (listeners (run [ToolSelect (Some point)])) =
      [initial, state (run [ToolSelect (Some point)])]
 \<and> valid_LngLat (lngLat (click_at NegInfinity (Finite 45)))
 \<and> \<not> isFinite NegInfinity
 \<and> (\<exists>f. features (state (handleDrawingClick (state (run [ToolSelect (Some point)]))
        (click_at NegInfinity (Finite 45)) (run [ToolSelect (Some point)]))) = [f]
      \<and> geometry f = Point (NegInfinity, Finite 45))"
proof -
  let ?c = "run [ToolSelect (Some point)]"
  have m: "map_current ?c" by code_simp
  have d: "drawingMode (state ?c) = Some point" by code_simp
  have f: "features (state ?c) = []" by code_simp
  have l: "map closure (listeners ?c) = [initial, state ?c]" by code_simp
  have v: "valid_LngLat (lngLat (click_at NegInfinity (Finite 45)))" by code_simp
  from C5_every_click_is_accepted [OF m, of "state ?c" "click_at NegInfinity (Finite 45)"]
    m d f l v
  show ?thesis by (simp add: click_at_def)
qed

subsection \<open>C6: update and delete of an id that is not in the list\<close>

text \<open>
  The claim asks that an update or a delete of a missing id report a NotFound outcome.
  Both handlers return nothing, and nothing in the component records a miss: deleting or
  updating the id \<open>nonexistent\<close> in a component that holds one feature and has no
  selection gives back that very component.
\<close>

theorem C6_missing_id_reports_nothing:
  "handleFeatureDelete ''nonexistent''
     (run [ToolSelect (Some point), MapClick (click_at (Finite 10) (Finite 20))]) =
   run [ToolSelect (Some point), MapClick (click_at (Finite 10) (Finite 20))]
 \<and> handleFeatureUpdate
     \<lparr>feature_id = Some ''nonexistent'', geometry = Point (Finite 0, Finite 0),
      properties = \<lparr>name = ''x'', description = ''y''\<rparr>\<rparr>
     (run [ToolSelect (Some point), MapClick (click_at (Finite 10) (Finite 20))]) =
   run [ToolSelect (Some point), MapClick (click_at (Finite 10) (Finite 20))]"
  by code_simp

text \<open>
  Claim C6, as the code has it. For every state of the list and every id that no feature
  of the list has, \<open>handleFeatureDelete\<close> of that id and \<open>handleFeatureUpdate\<close> of a
  feature with that id leave the list as it is. Both are total functions of the
  component, so no exception reaches the caller; neither reports an outcome.
\<close>

theorem C6_missing_id_leaves_the_list:
  assumes "Some i \<notin> feature_id ` set (features (state c))"
  shows "features (state (handleFeatureDelete i c)) = features (state c)
       \<and> (feature_id uf = Some i \<longrightarrow>
            features (state (handleFeatureUpdate uf c)) = features (state c))"
proof -
  have absent: "\<And>f. f \<in> set (features (state c)) \<Longrightarrow> feature_id f \<noteq> Some i"
    using assms by (metis imageI)
  have keep: "filter (\<lambda>f. feature_id f \<noteq> Some i) (features (state c)) = features (state c)"
    unfolding filter_id_conv using absent by blast
  have same: "map (\<lambda>f. if feature_id f = Some i then f\<lparr>properties := properties uf\<rparr> else f)
      (features (state c)) = features (state c)"
    by (intro map_idI) (simp add: absent)
  show ?thesis
    using keep same by (auto simp: handleFeatureDelete_def handleFeatureUpdate_def setters Let_def)
qed

theorem C6_missing_id_witness:
  "Some ''nonexistent'' \<notin> feature_id ` set (features (state
      (run [ToolSelect (Some point), MapClick (click_at (Finite 10) (Finite 20))])))
 \<and> features (state (handleFeatureDelete ''nonexistent''
      (run [ToolSelect (Some point), MapClick (click_at (Finite 10) (Finite 20))]))) =
    features (state (run [ToolSelect (Some point), MapClick (click_at (Finite 10) (Finite 20))]))
 \<and> features (state (handleFeatureUpdate
      \<lparr>feature_id = Some ''nonexistent'', geometry = Point (Finite 0, Finite 0),
       properties = \<lparr>name = ''x'', description = ''y''\<rparr>\<rparr>
      (run [ToolSelect (Some point), MapClick (click_at (Finite 10) (Finite 20))]))) =
    features (state (run [ToolSelect (Some point), MapClick (click_at (Finite 10) (Finite 20))]))
 \<and> length (features (state
      (run [ToolSelect (Some point), MapClick (click_at (Finite 10) (Finite 20))]))) = 1"
proof -
  let ?c = "run [ToolSelect (Some point), MapClick (click_at (Finite 10) (Finite 20))]"
  let ?uf = "\<lparr>feature_id = Some ''nonexistent'', geometry = Point (Finite 0, Finite 0),
       properties = \<lparr>name = ''x'', description = ''y''\<rparr>\<rparr>"
  have absent: "Some ''nonexistent'' \<notin> feature_id ` set (features (state ?c))"
    by code_simp
  have one: "length (features (state ?c)) = 1"
    by code_simp
  from C6_missing_id_leaves_the_list [OF absent, of ?uf] absent one
  show ?thesis by simp
qed

subsection \<open>C7: deleting the selected feature\<close>

text \<open>
  Claim C7. When the feature \<open>F\<close> with id \<open>i\<close> is selected, \<open>handleFeatureDelete i\<close>
  leaves no feature with that id in the list (in particular not \<open>F\<close>), clears the
  selection and closes the properties panel. When nothing is selected, or the selected
  feature has another id, the selection and the panel are as before. The page's
  \<open>handleFeatureDelete\<close> does the same with its selected id.
\<close>

theorem C7_delete_clears_the_selection:
  assumes "map_current c"
  shows "(selectedFeature (state c) = Some F \<and> feature_id F = Some i \<longrightarrow>
            F \<notin> set (features (state (handleFeatureDelete i c)))
          \<and> Some i \<notin> feature_id ` set (features (state (handleFeatureDelete i c)))
          \<and> selectedFeature (state (handleFeatureDelete i c)) = None
          \<and> \<not> showProperties (state (handleFeatureDelete i c)))
       \<and> ((case selectedFeature (state c) of
              None \<Rightarrow> True
            | Some s \<Rightarrow> feature_id s \<noteq> Some i) \<longrightarrow>
            selectedFeature (state (handleFeatureDelete i c)) = selectedFeature (state c)
          \<and> showProperties (state (handleFeatureDelete i c)) = showProperties (state c))
       \<and> (home_selectedFeature h = Some i \<longrightarrow>
            Some i \<notin> feature_id ` set (home_features (handleFeatureDelete_home i h))
          \<and> home_selectedFeature (handleFeatureDelete_home i h) = None)
       \<and> (home_selectedFeature h \<noteq> Some i \<longrightarrow>
            home_selectedFeature (handleFeatureDelete_home i h) = home_selectedFeature h)"
  using assms
  by (auto simp: handleFeatureDelete_def handleFeatureDelete_home_def setters Let_def
           split: option.splits)

theorem C7_delete_selection_witness:
  "map_current (run [ToolSelect (Some point), MapClick (click_at (Finite 10) (Finite 20)),
      FeatureSelect \<lparr>feature_id = Some ''uuid-0'', geometry = Point (Finite 10, Finite 20),
        properties = \<lparr>name = ''Point 1'', description = ''New point feature''\<rparr>\<rparr>])
 \<and> selectedFeature (state (run [ToolSelect (Some point),
      MapClick (click_at (Finite 10) (Finite 20)),
      FeatureSelect \<lparr>feature_id = Some ''uuid-0'', geometry = Point (Finite 10, Finite 20),
        properties = \<lparr>name = ''Point 1'', description = ''New point feature''\<rparr>\<rparr>])) =
    Some \<lparr>feature_id = Some ''uuid-0'', geometry = Point (Finite 10, Finite 20),
        properties = \<lparr>name = ''Point 1'', description = ''New point feature''\<rparr>\<rparr>
 \<and> showProperties (state (run [ToolSelect (Some point),
      MapClick (click_at (Finite 10) (Finite 20)),
      FeatureSelect \<lparr>feature_id = Some ''uuid-0'', geometry = Point (Finite 10, Finite 20),
        properties = \<lparr>name = ''Point 1'', description = ''New point feature''\<rparr>\<rparr>]))
 \<and> selectedFeature (state (handleFeatureDelete ''uuid-0'' (run [ToolSelect (Some point),
      MapClick (click_at (Finite 10) (Finite 20)),
      FeatureSelect \<lparr>feature_id = Some ''uuid-0'', geometry = Point (Finite 10, Finite 20),
        properties = \<lparr>name = ''Point 1'', description = ''New point feature''\<rparr>\<rparr>]))) = None
 \<and> \<not> showProperties (state (handleFeatureDelete ''uuid-0'' (run [ToolSelect (Some point),
      MapClick (click_at (Finite 10) (Finite 20)),
      FeatureSelect \<lparr>feature_id = Some ''uuid-0'', geometry = Point (Finite 10, Finite 20),
        properties = \<lparr>name = ''Point 1'', description = ''New point feature''\<rparr>\<rparr>])))
 \<and> Some ''uuid-0'' \<notin> feature_id ` set (features (state (handleFeatureDelete ''uuid-0''
      (run [ToolSelect (Some point), MapClick (click_at (Finite 10) (Finite 20)),
      FeatureSelect \<lparr>feature_id = Some ''uuid-0'', geometry = Point (Finite 10, Finite 20),
        properties = \<lparr>name = ''Point 1'', description = ''New point feature''\<rparr>\<rparr>]))))
 \<and> selectedFeature (state (handleFeatureDelete ''other'' (run [ToolSelect (Some point),
      MapClick (click_at (Finite 10) (Finite 20)),
      FeatureSelect \<lparr>feature_id = Some ''uuid-0'', geometry = Point (Finite 10, Finite 20),
        properties = \<lparr>name = ''Point 1'', description = ''New point feature''\<rparr>\<rparr>]))) =
    Some \<lparr>feature_id = Some ''uuid-0'', geometry = Point (Finite 10, Finite 20),
        properties = \<lparr>name = ''Point 1'', description = ''New point feature''\<rparr>\<rparr>
 \<and> home_selectedFeature (handleFeatureDelete_home ''uuid-0''
      \<lparr>home_features = [], home_selectedFeature = Some ''uuid-0''\<rparr>) = None"
proof -
  let ?F = "\<lparr>feature_id = Some ''uuid-0'', geometry = Point (Finite 10, Finite 20),
        properties = \<lparr>name = ''Point 1'', description = ''New point feature''\<rparr>\<rparr>"
  let ?c = "run [ToolSelect (Some point), MapClick (click_at (Finite 10) (Finite 20)),
      FeatureSelect ?F]"
  let ?h = "\<lparr>home_features = [], home_selectedFeature = Some ''uuid-0''\<rparr>"
  have m: "map_current ?c" by code_simp
  have s: "selectedFeature (state ?c) = Some ?F" by code_simp
  have p: "showProperties (state ?c)" by code_simp
  from C7_delete_clears_the_selection [OF m, of ?F "''uuid-0''" ?h]
    C7_delete_clears_the_selection [OF m, of ?F "''other''" ?h] m s p
  show ?thesis by simp
qed

subsection \<open>C8: the id of a feature\<close>

text \<open>
  Claim C8 asks that a feature keep its id when a vertex is appended to it. In
  \<open>addLinePoint\<close> of \<open>part_002\<close> (and of the copy in \<open>FeatureList.tsx\<close>) the feature
  that replaces the line in progress is given a new id made from the time of the click:
  the line created by a click at time 1000 has the id \<open>line-1000\<close>, and after a second
  click at time 2000 the same line, now with two vertices, has the id \<open>line-2000\<close>.
\<close>

theorem C8_append_replaces_the_id:
  "d_features (run_draft [DraftToolSelect (Some line),
      DraftMapClick 1000 (click_at (Finite 0) (Finite 0))]) =
     [LineFeature [(Finite 0, Finite 0)] ''line-1000'']
 \<and> d_features (run_draft [DraftToolSelect (Some line),
      DraftMapClick 1000 (click_at (Finite 0) (Finite 0)),
      DraftMapClick 2000 (click_at (Finite 1) (Finite 1))]) =
     [LineFeature [(Finite 0, Finite 0), (Finite 1, Finite 1)] ''line-2000'']"
  by code_simp

subsection \<open>C9: an update touches the properties only\<close>

text \<open>
  Claim C9. \<open>handleFeatureUpdate\<close>, given a feature with the non-empty id \<open>i\<close>,
  keeps the length and the order of the list; at every position the id and the geometry
  are as before; a feature with id \<open>i\<close> gets the properties of the feature given; every
  other feature is unchanged. Saving the name \<open>n\<close> and the description \<open>d\<close> in the
  properties panel (\<open>handleSave\<close>) while a feature with id \<open>i\<close> is selected does
  this with the properties \<open>n\<close> and \<open>d\<close>.
\<close>

theorem C9_update_touches_only_properties:
  assumes "map_current c" and "i \<noteq> []"
  shows "(feature_id uf = Some i \<longrightarrow>
            length (features (state (handleFeatureUpdate uf c))) = length (features (state c))
          \<and> (\<forall>k < length (features (state c)).
               feature_id (features (state (handleFeatureUpdate uf c)) ! k) =
                 feature_id (features (state c) ! k)
             \<and> geometry (features (state (handleFeatureUpdate uf c)) ! k) =
                 geometry (features (state c) ! k)
             \<and> (feature_id (features (state c) ! k) = Some i \<longrightarrow>
                  properties (features (state (handleFeatureUpdate uf c)) ! k) = properties uf)
             \<and> (feature_id (features (state c) ! k) \<noteq> Some i \<longrightarrow>
                  features (state (handleFeatureUpdate uf c)) ! k = features (state c) ! k)))
       \<and> (selectedFeature (state c) = Some s \<and> feature_id s = Some i \<longrightarrow>
            length (features (state (handleSave n d c))) = length (features (state c))
          \<and> (\<forall>k < length (features (state c)).
               feature_id (features (state (handleSave n d c)) ! k) =
                 feature_id (features (state c) ! k)
             \<and> geometry (features (state (handleSave n d c)) ! k) =
                 geometry (features (state c) ! k)
             \<and> (feature_id (features (state c) ! k) = Some i \<longrightarrow>
                  properties (features (state (handleSave n d c)) ! k) =
                    \<lparr>name = n, description = d\<rparr>)
             \<and> (feature_id (features (state c) ! k) \<noteq> Some i \<longrightarrow>
                  features (state (handleSave n d c)) ! k = features (state c) ! k)))"
proof -
  have upd: "features (state (handleFeatureUpdate u c)) =
      map (\<lambda>f. if feature_id f = Some i then f\<lparr>properties := properties u\<rparr> else f)
        (features (state c))" if "feature_id u = Some i" for u
    using assms that by (simp add: handleFeatureUpdate_def setters)
  have save: "features (state (handleSave n d c)) =
      features (state (handleFeatureUpdate (s\<lparr>properties := \<lparr>name = n, description = d\<rparr>\<rparr>) c))"
    if "selectedFeature (state c) = Some s"
    using that by (simp add: handleSave_def onClose_def setters Let_def properties_overwrite)
  have one: "feature_id uf = Some i \<longrightarrow>
            length (features (state (handleFeatureUpdate uf c))) = length (features (state c))
          \<and> (\<forall>k < length (features (state c)).
               feature_id (features (state (handleFeatureUpdate uf c)) ! k) =
                 feature_id (features (state c) ! k)
             \<and> geometry (features (state (handleFeatureUpdate uf c)) ! k) =
                 geometry (features (state c) ! k)
             \<and> (feature_id (features (state c) ! k) = Some i \<longrightarrow>
                  properties (features (state (handleFeatureUpdate uf c)) ! k) = properties uf)
             \<and> (feature_id (features (state c) ! k) \<noteq> Some i \<longrightarrow>
                  features (state (handleFeatureUpdate uf c)) ! k = features (state c) ! k))"
    by (simp add: upd)
  have two: "selectedFeature (state c) = Some s \<and> feature_id s = Some i \<longrightarrow>
            length (features (state (handleSave n d c))) = length (features (state c))
          \<and> (\<forall>k < length (features (state c)).
               feature_id (features (state (handleSave n d c)) ! k) =
                 feature_id (features (state c) ! k)
             \<and> geometry (features (state (handleSave n d c)) ! k) =
                 geometry (features (state c) ! k)
             \<and> (feature_id (features (state c) ! k) = Some i \<longrightarrow>
                  properties (features (state (handleSave n d c)) ! k) =
                    \<lparr>name = n, description = d\<rparr>)
             \<and> (feature_id (features (state c) ! k) \<noteq> Some i \<longrightarrow>
                  features (state (handleSave n d c)) ! k = features (state c) ! k))"
    by (simp add: save upd)
  from one two show ?thesis by blast
qed

text \<open>
  The round trip of the claim: a Point is created at (10, 20) and selected; its name and
  description are saved as \<open>Cafe\<close> and \<open>Good coffee\<close>; the list then shows one feature
  with the id and the position it had, and the new properties.
\<close>

theorem C9_round_trip_witness:
  "map_current (run [ToolSelect (Some point), MapClick (click_at (Finite 10) (Finite 20)),
      FeatureSelect \<lparr>feature_id = Some ''uuid-0'', geometry = Point (Finite 10, Finite 20),
        properties = \<lparr>name = ''Point 1'', description = ''New point feature''\<rparr>\<rparr>])
 \<and> ''uuid-0'' \<noteq> []
 \<and> features (state (run [ToolSelect (Some point), MapClick (click_at (Finite 10) (Finite 20)),
      FeatureSelect \<lparr>feature_id = Some ''uuid-0'', geometry = Point (Finite 10, Finite 20),
        properties = \<lparr>name = ''Point 1'', description = ''New point feature''\<rparr>\<rparr>])) =
    [\<lparr>feature_id = Some ''uuid-0'', geometry = Point (Finite 10, Finite 20),
        properties = \<lparr>name = ''Point 1'', description = ''New point feature''\<rparr>\<rparr>]
 \<and> length (features (state (handleSave ''Cafe'' ''Good coffee''
      (run [ToolSelect (Some point), MapClick (click_at (Finite 10) (Finite 20)),
      FeatureSelect \<lparr>feature_id = Some ''uuid-0'', geometry = Point (Finite 10, Finite 20),
        properties = \<lparr>name = ''Point 1'', description = ''New point feature''\<rparr>\<rparr>])))) = 1
 \<and> feature_id (features (state (handleSave ''Cafe'' ''Good coffee''
      (run [ToolSelect (Some point), MapClick (click_at (Finite 10) (Finite 20)),
      FeatureSelect \<lparr>feature_id = Some ''uuid-0'', geometry = Point (Finite 10, Finite 20),
        properties = \<lparr>name = ''Point 1'', description = ''New point feature''\<rparr>\<rparr>]))) ! 0) =
    Some ''uuid-0''
 \<and> geometry (features (state (handleSave ''Cafe'' ''Good coffee''
      (run [ToolSelect (Some point), MapClick (click_at (Finite 10) (Finite 20)),
      FeatureSelect \<lparr>feature_id = Some ''uuid-0'', geometry = Point (Finite 10, Finite 20),
        properties = \<lparr>name = ''Point 1'', description = ''New point feature''\<rparr>\<rparr>]))) ! 0) =
    Point (Finite 10, Finite 20)
 \<and> properties (features (state (handleSave ''Cafe'' ''Good coffee''
      (run [ToolSelect (Some point), MapClick (click_at (Finite 10) (Finite 20)),
      FeatureSelect \<lparr>feature_id = Some ''uuid-0'', geometry = Point (Finite 10, Finite 20),
        properties = \<lparr>name = ''Point 1'', description = ''New point feature''\<rparr>\<rparr>]))) ! 0) =
    \<lparr>name = ''Cafe'', description = ''Good coffee''\<rparr>"
proof -
  let ?F = "\<lparr>feature_id = Some ''uuid-0'', geometry = Point (Finite 10, Finite 20),
        properties = \<lparr>name = ''Point 1'', description = ''New point feature''\<rparr>\<rparr>"
  let ?c = "run [ToolSelect (Some point), MapClick (click_at (Finite 10) (Finite 20)),
      FeatureSelect ?F]"
  have m: "map_current ?c" by code_simp
  have ne: "''uuid-0'' \<noteq> []" by simp
  have s: "selectedFeature (state ?c) = Some ?F" by code_simp
  have f: "features (state ?c) = [?F]" by code_simp
  from C9_update_touches_only_properties [OF m ne, of ?F ?F "''Cafe''" "''Good coffee''"]
    m s f
  show ?thesis by simp
qed

subsection \<open>C10: deletion keeps the order of the other features\<close>

text \<open>
  Claim C10. \<open>handleFeatureDelete i\<close> leaves exactly the features whose id is not \<open>i\<close>,
  in the order they had: the new list is a subsequence of the old one, and when the ids
  of the list are distinct it is the old list without the one entry that has the id
  \<open>i\<close>. \<open>removeFeature\<close> with an index inside the list returns the list without the
  entry at that index; with an index outside the list it throws before it changes
  anything.
\<close>

theorem C10_delete_keeps_the_order:
  assumes "map_current c"
  shows "features (state (handleFeatureDelete i c)) =
           filter (\<lambda>f. feature_id f \<noteq> Some i) (features (state c))
       \<and> subseq (features (state (handleFeatureDelete i c))) (features (state c))
       \<and> (distinct (map feature_id (features (state c))) \<longrightarrow>
            (\<forall>k < length (features (state c)).
               feature_id (features (state c) ! k) = Some i \<longrightarrow>
               features (state (handleFeatureDelete i c)) =
                 take k (features (state c)) @ drop (Suc k) (features (state c))))
       \<and> (0 \<le> n \<and> nat n < length (features (state c)) \<longrightarrow>
            (\<exists>c'. removeFeature n c = Inr c' \<and>
               features (state c') =
                 take (nat n) (features (state c)) @ drop (Suc (nat n)) (features (state c))))
       \<and> (n < 0 \<or> int (length (features (state c))) \<le> n \<longrightarrow>
            removeFeature n c = Inl TypeError)"
proof -
  have del: "features (state (handleFeatureDelete i c)) =
      filter (\<lambda>f. feature_id f \<noteq> Some i) (features (state c))"
    using assms by (simp add: handleFeatureDelete_def setters Let_def)
  have sub: "subseq (features (state (handleFeatureDelete i c))) (features (state c))"
    unfolding del by simp
  have uniq: "distinct (map feature_id (features (state c))) \<longrightarrow>
            (\<forall>k < length (features (state c)).
               feature_id (features (state c) ! k) = Some i \<longrightarrow>
               features (state (handleFeatureDelete i c)) =
                 take k (features (state c)) @ drop (Suc k) (features (state c)))"
    unfolding del by (simp add: filter_unique_id)
  have idx: "0 \<le> n \<and> nat n < length (features (state c)) \<longrightarrow>
            (\<exists>c'. removeFeature n c = Inr c' \<and>
               features (state c') =
                 take (nat n) (features (state c)) @ drop (Suc (nat n)) (features (state c)))"
    using assms by (auto simp: removeFeature_def setters filter_indexed_remove)
  have out: "n < 0 \<or> int (length (features (state c))) \<le> n \<longrightarrow>
            removeFeature n c = Inl TypeError"
    using assms by (auto simp: removeFeature_def)
  from del sub uniq idx out show ?thesis by blast
qed

theorem C10_delete_order_witness:
  "map_current (run [ToolSelect (Some point), MapClick (click_at (Finite 1) (Finite 1)),
      MapClick (click_at (Finite 2) (Finite 2)), MapClick (click_at (Finite 3) (Finite 3))])
 \<and> map feature_id (features (state (run [ToolSelect (Some point),
      MapClick (click_at (Finite 1) (Finite 1)), MapClick (click_at (Finite 2) (Finite 2)),
      MapClick (click_at (Finite 3) (Finite 3))]))) =
    [Some ''uuid-0'', Some ''uuid-1'', Some ''uuid-2'']
 \<and> map geometry (features (state (handleFeatureDelete ''uuid-1'' (run [ToolSelect (Some point),
      MapClick (click_at (Finite 1) (Finite 1)), MapClick (click_at (Finite 2) (Finite 2)),
      MapClick (click_at (Finite 3) (Finite 3))])))) =
    [Point (Finite 1, Finite 1), Point (Finite 3, Finite 3)]
 \<and> (\<exists>c'. removeFeature 1 (run [ToolSelect (Some point),
      MapClick (click_at (Finite 1) (Finite 1)), MapClick (click_at (Finite 2) (Finite 2)),
      MapClick (click_at (Finite 3) (Finite 3))]) = Inr c'
      \<and> map geometry (features (state c')) =
          [Point (Finite 1, Finite 1), Point (Finite 3, Finite 3)])
 \<and> removeFeature 3 (run [ToolSelect (Some point),
      MapClick (click_at (Finite 1) (Finite 1)), MapClick (click_at (Finite 2) (Finite 2)),
      MapClick (click_at (Finite 3) (Finite 3))]) = Inl TypeError"
proof -
  let ?c = "run [ToolSelect (Some point), MapClick (click_at (Finite 1) (Finite 1)),
      MapClick (click_at (Finite 2) (Finite 2)), MapClick (click_at (Finite 3) (Finite 3))]"
  let ?p = "\<lparr>name = ''Point 1'', description = ''New point feature''\<rparr>"
  have m: "map_current ?c" by code_simp
  have fs: "features (state ?c) =
      [\<lparr>feature_id = Some ''uuid-0'', geometry = Point (Finite 1, Finite 1), properties = ?p\<rparr>,
       \<lparr>feature_id = Some ''uuid-1'', geometry = Point (Finite 2, Finite 2), properties = ?p\<rparr>,
       \<lparr>feature_id = Some ''uuid-2'', geometry = Point (Finite 3, Finite 3), properties = ?p\<rparr>]"
    by code_simp
  from C10_delete_keeps_the_order [OF m, of "''uuid-1''" 1]
  have a: "features (state (handleFeatureDelete ''uuid-1'' ?c)) =
        filter (\<lambda>f. feature_id f \<noteq> Some ''uuid-1'') (features (state ?c))"
    and b: "\<exists>c'. removeFeature 1 ?c = Inr c' \<and>
        features (state c') = take 1 (features (state ?c)) @ drop (Suc 1) (features (state ?c))"
    by (simp_all add: fs)
  from C10_delete_keeps_the_order [OF m, of "''uuid-1''" 3]
  have c: "removeFeature 3 ?c = Inl TypeError"
    by (simp add: fs)
  from b obtain c' where c': "removeFeature 1 ?c = Inr c'"
    "features (state c') = take 1 (features (state ?c)) @ drop (Suc 1) (features (state ?c))"
    by blast
  have g: "map geometry (features (state c')) =
      [Point (Finite 1, Finite 1), Point (Finite 3, Finite 3)]"
    unfolding c'(2) fs by simp
  have d: "map geometry (features (state (handleFeatureDelete ''uuid-1'' ?c))) =
      [Point (Finite 1, Finite 1), Point (Finite 3, Finite 3)]"
    unfolding a fs by simp
  have ids: "map feature_id (features (state ?c)) =
      [Some ''uuid-0'', Some ''uuid-1'', Some ''uuid-2'']"
    unfolding fs by simp
  from c'(1) g
  have ex: "\<exists>c'. removeFeature 1 ?c = Inr c' \<and>
      map geometry (features (state c')) =
        [Point (Finite 1, Finite 1), Point (Finite 3, Finite 3)]"
    by (intro exI [of _ c'] conjI)
  from m ids d ex c show ?thesis by simp
qed

end
